theory Spec2Isabelle
  imports Complex_Main
begin

section \<open>Python values, exceptions and numeric conversions\<close>

text \<open>
  The handlers of \<^verbatim>\<open>apps/irrigation_check/irrigation_check.py\<close> and of the older
  \<^verbatim>\<open>irrigation_check.py\<close> receive loosely typed event dictionaries and raise Python
  exceptions on malformed ones. Exceptions are values of \<open>py_error\<close>; a computation that
  can raise returns \<open>py_error + 'a\<close>, with \<open>Inl\<close> for the exception.

  Python floats are modelled as exact rationals (no rounding error, no \<open>inf\<close> or
  \<open>nan\<close>); Python's unbounded integers are \<open>int\<close>.
\<close>

datatype py_error =
  KeyError | ValueError | TypeError | IndexError | ZeroDivisionError | AssertionError

datatype pyval =
  PNone
  | PBool bool
  | PInt int
  | PFloat rat
  | PStr string
  | PList "pyval list"
  | PDict "(string \<times> pyval) list"

text \<open>\<^verbatim>\<open>v[key]\<close> with a string key: only a dictionary can be subscripted this way.\<close>

fun py_getitem :: "pyval \<Rightarrow> string \<Rightarrow> py_error + pyval" where
  "py_getitem (PDict kvs) k = (case map_of kvs k of None \<Rightarrow> Inl KeyError | Some v \<Rightarrow> Inr v)"
| "py_getitem _ k = Inl TypeError"

text \<open>\<^verbatim>\<open>int(x)\<close> on a float truncates toward zero.\<close>

definition py_trunc :: "rat \<Rightarrow> int" where
  "py_trunc q = (if 0 \<le> q then \<lfloor>q\<rfloor> else \<lceil>q\<rceil>)"

text \<open>
  \<^verbatim>\<open>int(s)\<close> on a string: surrounding whitespace is stripped, then an optional sign and
  decimal digits, where single underscores may separate digits. Only ASCII is modelled.
\<close>

definition is_space :: "char \<Rightarrow> bool" where
  "is_space c = (c = CHR 0x20 \<or> (of_char c :: nat) \<in> {0x09..0x0D} \<or> (of_char c :: nat) \<in> {0x1C..0x1F})"

definition is_digit :: "char \<Rightarrow> bool" where
  "is_digit c = ((of_char c :: nat) \<in> {0x30..0x39})"

definition digit_val :: "char \<Rightarrow> int" where
  "digit_val c = int (of_char c) - 0x30"

definition strip :: "string \<Rightarrow> string" where
  "strip s = rev (dropWhile is_space (rev (dropWhile is_space s)))"

fun parse_digits :: "int \<Rightarrow> string \<Rightarrow> int option" where
  "parse_digits acc [] = None"
| "parse_digits acc [c] = (if is_digit c then Some (10 * acc + digit_val c) else None)"
| "parse_digits acc (c # d # cs) =
     (if \<not> is_digit c then None
      else if d = CHR ''_'' then parse_digits (10 * acc + digit_val c) cs
      else parse_digits (10 * acc + digit_val c) (d # cs))"

definition int_of_str :: "string \<Rightarrow> int option" where
  "int_of_str s =
     (case strip s of
        [] \<Rightarrow> None
      | c # cs \<Rightarrow>
          if c = CHR ''-'' then map_option uminus (parse_digits 0 cs)
          else if c = CHR ''+'' then parse_digits 0 cs
          else parse_digits 0 (c # cs))"

fun py_int :: "pyval \<Rightarrow> py_error + int" where
  "py_int (PInt n) = Inr n"
| "py_int (PBool b) = Inr (if b then 1 else 0)"
| "py_int (PFloat q) = Inr (py_trunc q)"
| "py_int (PStr s) = (case int_of_str s of None \<Rightarrow> Inl ValueError | Some n \<Rightarrow> Inr n)"
| "py_int _ = Inl TypeError"

text \<open>\<^verbatim>\<open>round(x)\<close> rounds half to even; \<^verbatim>\<open>round(x, 1)\<close> does so at one decimal place.\<close>

definition py_round :: "rat \<Rightarrow> int" where
  "py_round q =
     (let n = \<lfloor>q\<rfloor>; r = q - of_int n
      in if r < 1 / 2 then n else if 1 / 2 < r then n + 1 else if even n then n else n + 1)"

definition round1 :: "rat \<Rightarrow> rat" where
  "round1 q = of_int (py_round (q * 10)) / 10"

text \<open>Truthiness of an optional action name: \<^verbatim>\<open>None\<close> and the empty string are false.\<close>

fun truthy :: "string option \<Rightarrow> bool" where
  "truthy None = False"
| "truthy (Some s) = (s \<noteq> [])"

text \<open>\<^verbatim>\<open>s.replace('.', '/')\<close>\<close>

definition replace_dots :: "string \<Rightarrow> string" where
  "replace_dots s = map (\<lambda>c. if c = CHR ''.'' then CHR ''/'' else c) s"

section \<open>Time\<close>

text \<open>
  A \<^verbatim>\<open>datetime\<close> is an instant counted in microseconds, a \<^verbatim>\<open>timedelta\<close> a number of
  microseconds; both are exact integers in Python.
\<close>

type_synonym datetime = int
type_synonym timedelta = int

definition timedelta_minutes :: "int \<Rightarrow> timedelta" where
  "timedelta_minutes m = m * 60000000"

text \<open>\<^verbatim>\<open>timedelta(seconds=x)\<close> with a float: rounded to the nearest microsecond.\<close>

definition timedelta_seconds :: "rat \<Rightarrow> timedelta" where
  "timedelta_seconds s = py_round (s * 1000000)"

definition total_seconds :: "timedelta \<Rightarrow> rat" where
  "total_seconds d = of_int d / 1000000"

text \<open>\<^verbatim>\<open>_fmt_mins\<close>: seconds to minutes, rounded to one decimal place.\<close>

definition fmt_mins :: "rat \<Rightarrow> rat" where
  "fmt_mins seconds = round1 (seconds / 60)"

section \<open>Configuration, environment and effects\<close>

text \<open>
  The options read by \<^verbatim>\<open>initialize\<close>. The two variants of the app read overlapping
  options from \<^verbatim>\<open>self.args\<close>; one record holds them all. The variant under
  \<^verbatim>\<open>apps/\<close> reads \<open>sprinkler_entity_id\<close>, \<open>notify_ok_action\<close> and
  \<open>notify_alert_action\<close>; the older variant reads \<open>delay_minutes\<close> and
  \<open>alert_notify_action\<close>. \<open>min_duration\<close> is a number of minutes.
\<close>

record config =
  sequence_entity_id :: string
  sprinkler_entity_id :: "string option"
  min_duration :: int
  min_expected_lpm :: int
  notify_ok_action :: "string option"
  notify_alert_action :: "string option"
  delay_minutes :: int
  alert_notify_action :: "string option"

text \<open>
  The defaults of \<^verbatim>\<open>initialize\<close>: \<open>min_duration\<close> 3, \<open>min_expected_lpm\<close> 10,
  \<open>delay_minutes\<close> 10, every optional name absent.
\<close>

definition default_config :: "string \<Rightarrow> config" where
  "default_config seq =
     \<lparr>sequence_entity_id = seq, sprinkler_entity_id = None, min_duration = 3,
      min_expected_lpm = 10, notify_ok_action = None, notify_alert_action = None,
      delay_minutes = 10, alert_notify_action = None\<rparr>"

text \<open>
  The \<open>state\<close> string of one history entry: either \<^verbatim>\<open>float()\<close> parses it to a number,
  or it raises \<^verbatim>\<open>ValueError\<close> (as for \<^verbatim>\<open>'unavailable'\<close>).
\<close>

datatype state_str = Numeric rat | Non_numeric string

fun py_float :: "state_str \<Rightarrow> py_error + rat" where
  "py_float (Numeric q) = Inr q"
| "py_float (Non_numeric s) = Inl ValueError"

text \<open>
  What one run of a callback reads from the outside world: the parsed
  \<open>last_reported\<close> attribute of the usage sensor (\<open>None\<close> when
  \<^verbatim>\<open>datetime.fromisoformat\<close> rejects it; a report is taken to carry its time zone,
  as the finish time does), the two clock readings \<^verbatim>\<open>datetime.now()\<close>
  and \<^verbatim>\<open>datetime.now(tz)\<close>, the history returned for an entity and a start time
  (\<open>None\<close> when the result is not a list), and the state of the valve entity.
\<close>

record env =
  last_reported :: "datetime option"
  now_local :: datetime
  now_tz :: datetime
  get_history :: "string \<Rightarrow> datetime \<Rightarrow> state_str list list option"
  valve_state :: string

text \<open>
  The event dictionary handed on to \<^verbatim>\<open>check_usage\<close>, with the two keys
  \<^verbatim>\<open>irrigation_complete\<close> adds to it.
\<close>

record run_data =
  event :: "(string \<times> pyval) list"
  duration :: int
  finish_time :: datetime

datatype message =
  Expected_usage int rat
  | Usage_mismatch rat int
  | Batch_usage_mismatch int rat

datatype log_entry =
  Too_short rat
  | Beginning_checks
  | Valve_on "string option"
  | Not_yet_updated datetime datetime
  | Too_old datetime
  | Late_report rat
  | Found_lpm rat rat rat
  | Info message
  | Alert_line message
  | Batch_too_short int
  | Batch_running_in int
  | Batch_expected rat int

datatype effect =
  Log log_entry
  | Log_error log_entry
  | Get_state string string
  | Get_history string datetime
  | Run_in_check_valve int
  | Run_in_check_usage int run_data
  | Run_in_batch_check_usage int "(string \<times> pyval) list"
  | Call_service string string message

text \<open>How a run of \<^verbatim>\<open>check_usage\<close> ends.\<close>

datatype verdict = Confirmed | Alert

datatype ending =
  Raised py_error
  | Retry_scheduled
  | Abandoned
  | Classified verdict int rat

definition usage_sensor :: string where
  "usage_sensor = ''sensor.flo_shutoff_today_s_water_usage''"

section \<open>The handlers of the retrying variant\<close>

text \<open>
  \<^verbatim>\<open>irrigation_complete\<close>: \<open>now\<close> is the reading of \<^verbatim>\<open>datetime.now(tz)\<close> stored as
  \<open>finish_time\<close>. The result is the list of effects in program order and the
  exception that left the handler, if any.
\<close>

text \<open>\<^verbatim>\<open>int(data['run']['duration'])\<close>, the expression both variants evaluate.\<close>

definition run_duration :: "(string \<times> pyval) list \<Rightarrow> py_error + int" where
  "run_duration data =
     (case py_getitem (PDict data) ''run'' of
        Inl e \<Rightarrow> Inl e
      | Inr run \<Rightarrow>
          (case py_getitem run ''duration'' of
             Inl e \<Rightarrow> Inl e
           | Inr dv \<Rightarrow> py_int dv))"

definition irrigation_complete ::
  "config \<Rightarrow> datetime \<Rightarrow> (string \<times> pyval) list \<Rightarrow> effect list \<times> py_error option" where
  "irrigation_complete cfg now data =
     (case py_getitem (PDict data) ''entity_id'' of
        Inl e \<Rightarrow> ([], Some e)
      | Inr ent \<Rightarrow>
          if ent \<noteq> PStr (sequence_entity_id cfg) then ([], None)
          else
            let fx = (if truthy (sprinkler_entity_id cfg) then [Run_in_check_valve 10] else [])
            in (case run_duration data of
                  Inl e \<Rightarrow> (fx, Some e)
                | Inr d \<Rightarrow>
                    if (of_int d :: rat) / 60 < of_int (min_duration cfg)
                    then (fx @ [Log (Too_short (fmt_mins (of_int d)))], None)
                    else (fx @ [Log Beginning_checks,
                                Run_in_check_usage 30
                                  \<lparr>event = data, duration = d, finish_time = now\<rparr>],
                          None)))"

definition check_valve :: "config \<Rightarrow> env \<Rightarrow> effect list" where
  "check_valve cfg e =
     (if valve_state e = ''on'' then [Log_error (Valve_on (sprinkler_entity_id cfg))] else [])"

text \<open>
  \<^verbatim>\<open>_get_history_state_delta\<close>: last state minus first state of \<^verbatim>\<open>history[0]\<close>.
  Both variants compute the difference the same way (\<open>state_delta\<close>); they differ in
  the start time they query.
\<close>

definition state_delta :: "state_str list list option \<Rightarrow> py_error + rat" where
  "state_delta history =
     (case history of
        None \<Rightarrow> Inl AssertionError
      | Some [] \<Rightarrow> Inl IndexError
      | Some ([] # _) \<Rightarrow> Inl IndexError
      | Some ((p # ps) # _) \<Rightarrow>
          (case py_float p of
             Inl er \<Rightarrow> Inl er
           | Inr start_val \<Rightarrow>
               (case py_float (last (p # ps)) of
                  Inl er \<Rightarrow> Inl er
                | Inr end_val \<Rightarrow> Inr (end_val - start_val))))"

definition get_history_state_delta :: "env \<Rightarrow> string \<Rightarrow> datetime \<Rightarrow> py_error + rat" where
  "get_history_state_delta e entity_id start_time =
     state_delta (get_history e entity_id start_time)"

text \<open>The start of the history window computed by \<^verbatim>\<open>check_usage\<close>.\<close>

definition start_time_of :: "env \<Rightarrow> run_data \<Rightarrow> datetime" where
  "start_time_of e data =
     now_local e - (now_tz e - finish_time data) - timedelta_seconds (of_int (duration data))"

text \<open>The two notification branches of \<^verbatim>\<open>check_usage\<close>.\<close>

definition notify_ok :: "config \<Rightarrow> message \<Rightarrow> effect list" where
  "notify_ok cfg msg =
     Log (Info msg) #
     (if truthy (notify_ok_action cfg)
      then [Call_service (replace_dots (the (notify_ok_action cfg))) ''Irrigation OK'' msg]
      else [])"

definition notify_alert :: "config \<Rightarrow> message \<Rightarrow> effect list" where
  "notify_alert cfg msg =
     Log (Alert_line msg) #
     (if truthy (notify_alert_action cfg)
      then [Call_service (replace_dots (the (notify_alert_action cfg))) ''Irrigation Alert'' msg]
      else [])"

text \<open>
  \<^verbatim>\<open>check_usage\<close>: the effects in program order and how the run of the callback ends.
\<close>

definition check_usage :: "config \<Rightarrow> env \<Rightarrow> run_data \<Rightarrow> effect list \<times> ending" where
  "check_usage cfg e data =
     (let q = Get_state usage_sensor ''last_reported'' in
      case last_reported e of
        None \<Rightarrow> ([q], Raised ValueError)
      | Some reported \<Rightarrow>
          let latency = reported - finish_time data in
          if reported < finish_time data
          then ([q, Log (Not_yet_updated reported (finish_time data)),
                 Run_in_check_usage 60 data], Retry_scheduled)
          else if latency > timedelta_minutes 30
          then ([q, Log_error (Too_old (finish_time data))], Abandoned)
          else
            let warn = (if latency > timedelta_minutes 10
                        then [Log (Late_report (fmt_mins (total_seconds latency)))] else []);
                dur = (of_int (duration data) :: rat);
                start_time = start_time_of e data;
                fx = q # warn @ [Get_history usage_sensor start_time]
            in (case get_history_state_delta e usage_sensor start_time of
                  Inl er \<Rightarrow> (fx, Raised er)
                | Inr delta \<Rightarrow>
                    let usage_liters = py_trunc delta in
                    if dur / 60 = 0 then (fx, Raised ZeroDivisionError)
                    else
                      let lpm = of_int usage_liters / (dur / 60);
                          fx' = fx @ [Log (Found_lpm lpm (fmt_mins dur)
                                             (fmt_mins (total_seconds latency)))]
                      in if lpm > of_int (min_expected_lpm cfg)
                         then (fx' @ notify_ok cfg (Expected_usage usage_liters (fmt_mins dur)),
                               Classified Confirmed usage_liters lpm)
                         else (fx' @ notify_alert cfg (Usage_mismatch (fmt_mins dur) usage_liters),
                               Classified Alert usage_liters lpm)))"

text \<open>
  One verification task: \<^verbatim>\<open>check_usage\<close> is run again, by the timer it set, as long as
  it ends by scheduling a retry. Each run reads the next snapshot of the environment;
  \<open>None\<close> says that the task is still waiting when the snapshots are used up.
\<close>

fun run_task :: "config \<Rightarrow> run_data \<Rightarrow> env list \<Rightarrow> effect list \<times> ending option" where
  "run_task cfg data [] = ([], None)"
| "run_task cfg data (e # es) =
     (case check_usage cfg e data of
        (fx, Retry_scheduled) \<Rightarrow> (fx @ fst (run_task cfg data es), snd (run_task cfg data es))
      | (fx, r) \<Rightarrow> (fx, Some r))"

section \<open>The handlers of the fixed-delay variant\<close>

text \<open>
  The older \<^verbatim>\<open>irrigation_check.py\<close> waits \<open>delay_minutes\<close> once and checks once. Its
  functions have the names of the retrying variant; here they carry the prefix
  \<open>batch_\<close>.
\<close>

text \<open>\<^verbatim>\<open>int(int(data['run']['duration']) / 60)\<close>: whole minutes, truncated.\<close>

definition batch_duration :: "(string \<times> pyval) list \<Rightarrow> py_error + int" where
  "batch_duration data =
     (case run_duration data of
        Inl e \<Rightarrow> Inl e
      | Inr d \<Rightarrow> Inr (py_trunc (of_int d / 60)))"

definition batch_irrigation_complete ::
  "config \<Rightarrow> (string \<times> pyval) list \<Rightarrow> effect list \<times> py_error option" where
  "batch_irrigation_complete cfg data =
     (case py_getitem (PDict data) ''entity_id'' of
        Inl e \<Rightarrow> ([], Some e)
      | Inr ent \<Rightarrow>
          if ent \<noteq> PStr (sequence_entity_id cfg) then ([], None)
          else
            (case batch_duration data of
               Inl e \<Rightarrow> ([], Some e)
             | Inr dur \<Rightarrow>
                 if dur < min_duration cfg then ([Log (Batch_too_short dur)], None)
                 else ([Log (Batch_running_in (delay_minutes cfg)),
                        Run_in_batch_check_usage (delay_minutes cfg * 60) data], None)))"

definition batch_start_time :: "env \<Rightarrow> int \<Rightarrow> datetime" where
  "batch_start_time e history_minutes = now_local e - timedelta_minutes history_minutes"

definition batch_get_history_state_delta :: "env \<Rightarrow> string \<Rightarrow> int \<Rightarrow> py_error + rat" where
  "batch_get_history_state_delta e entity_id history_minutes =
     state_delta (get_history e entity_id (batch_start_time e history_minutes))"

datatype batch_ending =
  Batch_raised py_error
  | Batch_classified verdict rat

definition batch_check_usage ::
  "config \<Rightarrow> env \<Rightarrow> (string \<times> pyval) list \<Rightarrow> effect list \<times> batch_ending" where
  "batch_check_usage cfg e data =
     (case batch_duration data of
        Inl er \<Rightarrow> ([], Batch_raised er)
      | Inr dur \<Rightarrow>
          let history_mins = delay_minutes cfg + dur;
              fx = [Get_history usage_sensor (batch_start_time e history_mins)]
          in (case batch_get_history_state_delta e usage_sensor history_mins of
                Inl er \<Rightarrow> (fx, Batch_raised er)
              | Inr delta \<Rightarrow>
                  let usage_liters = round1 delta in
                  if usage_liters > of_int (dur * min_expected_lpm cfg)
                  then (fx @ [Log (Batch_expected usage_liters dur)],
                        Batch_classified Confirmed usage_liters)
                  else
                    let msg = Batch_usage_mismatch dur usage_liters
                    in (fx @ Log (Alert_line msg) #
                          (if truthy (alert_notify_action cfg)
                           then [Call_service (replace_dots (the (alert_notify_action cfg)))
                                   ''Irrigation Alert'' msg]
                           else []),
                        Batch_classified Alert usage_liters)))"

section \<open>Observing a trace of effects\<close>

text \<open>
  A timer that will run \<^verbatim>\<open>check_usage\<close> is how either variant creates a verification
  task; reading the usage sensor or its history is a usage query; \<^verbatim>\<open>call_service\<close> is
  the notification.
\<close>

fun is_check_usage_timer :: "effect \<Rightarrow> bool" where
  "is_check_usage_timer (Run_in_check_usage n d) = True"
| "is_check_usage_timer (Run_in_batch_check_usage n d) = True"
| "is_check_usage_timer _ = False"

fun is_usage_query :: "effect \<Rightarrow> bool" where
  "is_usage_query (Get_history ent t) = True"
| "is_usage_query (Get_state ent attr) = True"
| "is_usage_query _ = False"

fun is_history_query :: "effect \<Rightarrow> bool" where
  "is_history_query (Get_history ent t) = True"
| "is_history_query _ = False"

fun is_notification :: "effect \<Rightarrow> bool" where
  "is_notification (Call_service a t m) = True"
| "is_notification _ = False"

text \<open>
  The notification that belongs to an ending of \<^verbatim>\<open>check_usage\<close>: the call the
  Confirmed branch makes when \<open>notify_ok_action\<close> is set, the call the Alert branch
  makes when \<open>notify_alert_action\<close> is set, and none otherwise.
\<close>

fun notification_for :: "config \<Rightarrow> run_data \<Rightarrow> ending \<Rightarrow> effect list" where
  "notification_for cfg d (Classified Confirmed u l) =
     (if truthy (notify_ok_action cfg)
      then [Call_service (replace_dots (the (notify_ok_action cfg))) ''Irrigation OK''
              (Expected_usage u (fmt_mins (of_int (duration d))))]
      else [])"
| "notification_for cfg d (Classified Alert u l) =
     (if truthy (notify_alert_action cfg)
      then [Call_service (replace_dots (the (notify_alert_action cfg))) ''Irrigation Alert''
              (Usage_mismatch (fmt_mins (of_int (duration d))) u)]
      else [])"
| "notification_for cfg d _ = []"

text \<open>The event is for the configured irrigation sequence.\<close>

definition matches :: "config \<Rightarrow> (string \<times> pyval) list \<Rightarrow> bool" where
  "matches cfg data = (map_of data ''entity_id'' = Some (PStr (sequence_entity_id cfg)))"

section \<open>Concrete scenarios\<close>

text \<open>
  A configuration with the default thresholds and every notification configured, an
  event for its sequence, and an environment in which the sensor last reported at the
  given instant and every history query returns the given history. They are the inputs
  at which the properties below are evaluated.
\<close>

definition scenario_config :: config where
  "scenario_config =
     (default_config ''seq'')\<lparr>notify_ok_action := Some ''notify.ok'',
                               notify_alert_action := Some ''notify.alert'',
                               alert_notify_action := Some ''notify.alert''\<rparr>"

definition run_event :: "pyval \<Rightarrow> (string \<times> pyval) list" where
  "run_event dv = [(''entity_id'', PStr ''seq''), (''run'', PDict [(''duration'', dv)])]"

definition scenario_run :: "int \<Rightarrow> run_data" where
  "scenario_run d = \<lparr>event = run_event (PInt d), duration = d, finish_time = 0\<rparr>"

definition scenario_env :: "datetime \<Rightarrow> state_str list list option \<Rightarrow> env" where
  "scenario_env reported hist =
     \<lparr>last_reported = Some reported, now_local = 150000000, now_tz = 150000000,
      get_history = (\<lambda>_ _. hist), valve_state = ''off''\<rparr>"

text \<open>
  An environment in which the sensor last reported one second before the finish time of
  \<open>scenario_run\<close>, read when both clocks show the given instant.
\<close>

definition stale_env :: "datetime \<Rightarrow> env" where
  "stale_env now =
     \<lparr>last_reported = Some (- 1000000), now_local = now, now_tz = now,
      get_history = (\<lambda>_ _. None), valve_state = ''off''\<rparr>"

section \<open>Properties\<close>

lemmas scenario_defs =
  scenario_config_def run_event_def scenario_run_def scenario_env_def default_config_def

lemmas check_usage_unfold =
  check_usage_def Let_def start_time_of_def get_history_state_delta_def state_delta_def
  timedelta_minutes_def timedelta_seconds_def total_seconds_def fmt_mins_def round1_def
  py_round_def notify_ok_def notify_alert_def replace_dots_def usage_sensor_def

lemmas check_usage_eval = check_usage_unfold py_trunc_def

lemmas batch_check_usage_eval =
  batch_check_usage_def batch_duration_def run_duration_def batch_get_history_state_delta_def
  batch_start_time_def state_delta_def Let_def timedelta_minutes_def round1_def py_round_def
  py_trunc_def replace_dots_def usage_sensor_def

subsection \<open>The minimum-duration filter\<close>

lemma minutes_below_iff: "((of_int d :: rat) / 60 < of_int m) = (d < 60 * m)"
proof -
  have "((of_int d :: rat) / 60 < of_int m) = ((of_int d :: rat) < of_int m * 60)"
    by (rule pos_divide_less_eq) simp
  also have "\<dots> = ((of_int d :: rat) < of_int (60 * m))"
    by (simp only: of_int_mult of_int_numeral mult.commute[of "of_int m :: rat" 60])
  also have "\<dots> = (d < 60 * m)" by (rule of_int_less_iff)
  finally show ?thesis .
qed

lemma irrigation_complete_short:
  assumes "matches cfg data" and "run_duration data = Inr d" and "d < 60 * min_duration cfg"
  shows "irrigation_complete cfg now data =
           ((if truthy (sprinkler_entity_id cfg) then [Run_in_check_valve 10] else [])
              @ [Log (Too_short (fmt_mins (of_int d)))], None)"
  using assms
  by (simp add: irrigation_complete_def matches_def minutes_below_iff)

lemma irrigation_complete_long:
  assumes "matches cfg data" and "run_duration data = Inr d" and "60 * min_duration cfg \<le> d"
  shows "irrigation_complete cfg now data =
           ((if truthy (sprinkler_entity_id cfg) then [Run_in_check_valve 10] else [])
              @ [Log Beginning_checks,
                 Run_in_check_usage 30 \<lparr>event = data, duration = d, finish_time = now\<rparr>], None)"
  using assms
  by (simp add: irrigation_complete_def matches_def minutes_below_iff)

lemma floor_div_60: "\<lfloor>(of_int d :: rat) / 60\<rfloor> = d div 60"
proof -
  have "\<lfloor>(of_int d :: rat) / of_int 60\<rfloor> = d div 60" by (rule floor_divide_of_int_eq)
  then show ?thesis by (simp only: of_int_numeral)
qed

lemma div_60_aux:
  fixes d q r m :: int
  assumes "d = 60 * q + r" and "0 \<le> r" and "r < 60"
  shows "(q < m) = (d < 60 * m)"
  using assms by linarith

lemma div_60_below_iff: "((d::int) div 60 < m) = (d < 60 * m)"
proof (rule div_60_aux)
  show "d = 60 * (d div 60) + d mod 60" by simp
  show "0 \<le> d mod 60" by simp
  show "d mod 60 < 60" by simp
qed

lemma trunc_minutes_below_iff:
  assumes "0 \<le> d \<or> 0 < m"
  shows "(py_trunc (of_int d / 60) < m) = (d < 60 * m)"
proof (cases "0 \<le> d")
  case True
  have "py_trunc (of_int d / 60) = d div 60"
    using True by (simp add: py_trunc_def floor_div_60)
  then show ?thesis by (simp only: div_60_below_iff)
next
  case False
  then have m: "0 < m" using assms by simp
  from False have neg: "(of_int d :: rat) / 60 < 0" by simp
  then have "py_trunc (of_int d / 60) = \<lceil>(of_int d :: rat) / 60\<rceil>" by (simp add: py_trunc_def)
  moreover have "\<lceil>(of_int d :: rat) / 60\<rceil> \<le> 0" using neg by (simp add: ceiling_le_iff)
  ultimately have "py_trunc (of_int d / 60) < m" using m by linarith
  moreover have "d < 60 * m" using m False by linarith
  ultimately show ?thesis by simp
qed

lemma batch_irrigation_complete_short:
  assumes "matches cfg data" and "run_duration data = Inr d" and "d < 60 * min_duration cfg"
    and "0 \<le> d \<or> 0 < min_duration cfg"
  shows "batch_irrigation_complete cfg data = ([Log (Batch_too_short (py_trunc (of_int d / 60)))], None)"
  using assms trunc_minutes_below_iff[of d "min_duration cfg"]
  by (simp add: batch_irrigation_complete_def matches_def batch_duration_def)

lemma batch_irrigation_complete_long:
  assumes "matches cfg data" and "run_duration data = Inr d" and "60 * min_duration cfg \<le> d"
    and "0 \<le> d \<or> 0 < min_duration cfg"
  shows "batch_irrigation_complete cfg data =
     ([Log (Batch_running_in (delay_minutes cfg)),
       Run_in_batch_check_usage (delay_minutes cfg * 60) data], None)"
  using assms trunc_minutes_below_iff[of d "min_duration cfg"]
  by (simp add: batch_irrigation_complete_def matches_def batch_duration_def)

subsection \<open>One run of the usage check\<close>


lemma check_usage_unparsed:
  "last_reported e = None \<Longrightarrow>
   check_usage cfg e d = ([Get_state usage_sensor ''last_reported''], Raised ValueError)"
  by (simp add: check_usage_def)

lemma check_usage_retry:
  "last_reported e = Some r \<Longrightarrow> r < finish_time d \<Longrightarrow>
   check_usage cfg e d =
     ([Get_state usage_sensor ''last_reported'', Log (Not_yet_updated r (finish_time d)),
       Run_in_check_usage 60 d], Retry_scheduled)"
  by (simp add: check_usage_def)

lemma check_usage_too_old:
  "last_reported e = Some r \<Longrightarrow> timedelta_minutes 30 < r - finish_time d \<Longrightarrow>
   check_usage cfg e d =
     ([Get_state usage_sensor ''last_reported'', Log_error (Too_old (finish_time d))], Abandoned)"
  by (simp add: check_usage_def timedelta_minutes_def)

lemma check_usage_ending:
  assumes "last_reported e = Some r" and "finish_time d \<le> r"
    and "r - finish_time d \<le> timedelta_minutes 30"
  shows "snd (check_usage cfg e d) =
     (case get_history_state_delta e usage_sensor (start_time_of e d) of
        Inl er \<Rightarrow> Raised er
      | Inr delta \<Rightarrow>
          if duration d = 0 then Raised ZeroDivisionError
          else Classified
                 (if of_int (py_trunc delta) / (of_int (duration d) / 60)
                       > (of_int (min_expected_lpm cfg) :: rat) then Confirmed else Alert)
                 (py_trunc delta)
                 (of_int (py_trunc delta) / (of_int (duration d) / 60)))"
  using assms
  by (simp add: check_usage_def Let_def split: sum.split)

lemma check_usage_timers:
  "filter is_check_usage_timer (fst (check_usage cfg e d)) =
     (if snd (check_usage cfg e d) = Retry_scheduled then [Run_in_check_usage 60 d] else [])"
  by (simp add: check_usage_def Let_def notify_ok_def notify_alert_def
      split: option.split sum.split)

subsection \<open>Classification\<close>






subsection \<open>Which runs are checked\<close>

text \<open>
  C2. For an event of the configured sequence whose duration is \<open>d\<close> seconds: below
  the threshold of \<open>60 * min_duration\<close> seconds (\<open>min_duration\<close> is configured in
  minutes, 3 by default, hence 180 seconds) the handler returns without creating a timer
  for \<^verbatim>\<open>check_usage\<close> and without any usage query; at or above the threshold it
  schedules \<^verbatim>\<open>check_usage\<close>. The fixed-delay variant truncates to whole minutes first;
  for a non-negative duration or a positive threshold it draws the same line.
\<close>

theorem short_runs_are_not_checked:
  assumes "matches cfg data" and "run_duration data = Inr d"
  shows "(d < 60 * min_duration cfg \<longrightarrow>
            snd (irrigation_complete cfg now data) = None \<and>
            filter is_check_usage_timer (fst (irrigation_complete cfg now data)) = [] \<and>
            filter is_usage_query (fst (irrigation_complete cfg now data)) = []) \<and>
         (60 * min_duration cfg \<le> d \<longrightarrow>
            snd (irrigation_complete cfg now data) = None \<and>
            filter is_check_usage_timer (fst (irrigation_complete cfg now data)) =
              [Run_in_check_usage 30 \<lparr>event = data, duration = d, finish_time = now\<rparr>]) \<and>
         ((0 \<le> d \<or> 0 < min_duration cfg) \<and> d < 60 * min_duration cfg \<longrightarrow>
            snd (batch_irrigation_complete cfg data) = None \<and>
            filter is_check_usage_timer (fst (batch_irrigation_complete cfg data)) = [] \<and>
            filter is_usage_query (fst (batch_irrigation_complete cfg data)) = []) \<and>
         ((0 \<le> d \<or> 0 < min_duration cfg) \<and> 60 * min_duration cfg \<le> d \<longrightarrow>
            snd (batch_irrigation_complete cfg data) = None \<and>
            filter is_check_usage_timer (fst (batch_irrigation_complete cfg data)) =
              [Run_in_batch_check_usage (delay_minutes cfg * 60) data])"
proof (intro conjI impI)
  assume s: "d < 60 * min_duration cfg"
  note e = irrigation_complete_short[OF assms s, of now]
  show "snd (irrigation_complete cfg now data) = None" by (simp add: e)
  show "filter is_check_usage_timer (fst (irrigation_complete cfg now data)) = []"
    by (simp add: e)
  show "filter is_usage_query (fst (irrigation_complete cfg now data)) = []"
    by (simp add: e)
next
  assume l: "60 * min_duration cfg \<le> d"
  note e = irrigation_complete_long[OF assms l, of now]
  show "snd (irrigation_complete cfg now data) = None" by (simp add: e)
  show "filter is_check_usage_timer (fst (irrigation_complete cfg now data)) =
          [Run_in_check_usage 30 \<lparr>event = data, duration = d, finish_time = now\<rparr>]"
    by (simp add: e)
next
  assume a: "(0 \<le> d \<or> 0 < min_duration cfg) \<and> d < 60 * min_duration cfg"
  then have e: "batch_irrigation_complete cfg data =
                  ([Log (Batch_too_short (py_trunc (of_int d / 60)))], None)"
    using batch_irrigation_complete_short[OF assms] by blast
  show "snd (batch_irrigation_complete cfg data) = None" by (simp add: e)
  show "filter is_check_usage_timer (fst (batch_irrigation_complete cfg data)) = []"
    by (simp add: e)
  show "filter is_usage_query (fst (batch_irrigation_complete cfg data)) = []"
    by (simp add: e)
next
  assume a: "(0 \<le> d \<or> 0 < min_duration cfg) \<and> 60 * min_duration cfg \<le> d"
  then have e: "batch_irrigation_complete cfg data =
     ([Log (Batch_running_in (delay_minutes cfg)),
       Run_in_batch_check_usage (delay_minutes cfg * 60) data], None)"
    using batch_irrigation_complete_long[OF assms] by blast
  show "snd (batch_irrigation_complete cfg data) = None" by (simp add: e)
  show "filter is_check_usage_timer (fst (batch_irrigation_complete cfg data)) =
          [Run_in_batch_check_usage (delay_minutes cfg * 60) data]"
    by (simp add: e)
qed

theorem short_runs_are_not_checked_witness:
  "matches scenario_config (run_event (PInt 90)) \<and>
   run_duration (run_event (PInt 90)) = Inr 90 \<and>
   90 < 60 * min_duration scenario_config \<and>
   irrigation_complete scenario_config 0 (run_event (PInt 90)) = ([Log (Too_short (3 / 2))], None) \<and>
   filter is_check_usage_timer (fst (irrigation_complete scenario_config 0 (run_event (PInt 90)))) = [] \<and>
   filter is_usage_query (fst (irrigation_complete scenario_config 0 (run_event (PInt 90)))) = [] \<and>
   matches scenario_config (run_event (PInt 180)) \<and>
   run_duration (run_event (PInt 180)) = Inr 180 \<and>
   60 * min_duration scenario_config \<le> 180 \<and>
   filter is_check_usage_timer (fst (irrigation_complete scenario_config 0 (run_event (PInt 180)))) =
     [Run_in_check_usage 30 \<lparr>event = run_event (PInt 180), duration = 180, finish_time = 0\<rparr>] \<and>
   filter is_check_usage_timer (fst (batch_irrigation_complete scenario_config (run_event (PInt 90)))) = [] \<and>
   filter is_check_usage_timer (fst (batch_irrigation_complete scenario_config (run_event (PInt 180)))) =
     [Run_in_batch_check_usage 600 (run_event (PInt 180))]"
proof -
  have m1: "matches scenario_config (run_event (PInt 90))"
    by (simp add: matches_def scenario_defs)
  have d1: "run_duration (run_event (PInt 90)) = Inr 90"
    by (simp add: run_duration_def scenario_defs)
  have m2: "matches scenario_config (run_event (PInt 180))"
    by (simp add: matches_def scenario_defs)
  have d2: "run_duration (run_event (PInt 180)) = Inr 180"
    by (simp add: run_duration_def scenario_defs)
  have c: "min_duration scenario_config = 3" "delay_minutes scenario_config = 10"
    by (simp_all add: scenario_defs)
  have x: "irrigation_complete scenario_config 0 (run_event (PInt 90)) = ([Log (Too_short (3 / 2))], None)"
    using irrigation_complete_short[OF m1 d1, of 0]
    by (simp add: c scenario_config_def default_config_def fmt_mins_def round1_def py_round_def)
  show ?thesis
    using short_runs_are_not_checked[OF m1 d1, of 0] short_runs_are_not_checked[OF m2 d2, of 0]
      m1 d1 m2 d2 x
    by (simp add: c)
qed

subsection \<open>The flow rate\<close>




subsection \<open>Notifications of one task\<close>

lemma check_usage_notification_for:
  "filter is_notification (fst (check_usage cfg e d)) =
     notification_for cfg d (snd (check_usage cfg e d))"
  by (simp add: check_usage_def Let_def notify_ok_def notify_alert_def
      split: option.split sum.split)

lemma run_task_notification_for:
  "filter is_notification (fst (run_task cfg d es)) =
     (case snd (run_task cfg d es) of None \<Rightarrow> [] | Some r \<Rightarrow> notification_for cfg d r)"
proof (induction es)
  case Nil
  show ?case by simp
next
  case (Cons e es)
  obtain fx r where c: "check_usage cfg e d = (fx, r)" by (cases "check_usage cfg e d")
  have n: "filter is_notification fx = notification_for cfg d r"
    using check_usage_notification_for[of cfg e d] by (simp add: c)
  show ?case
  proof (cases "r = Retry_scheduled")
    case True
    then have "filter is_notification fx = []" using n by simp
    then show ?thesis using Cons.IH True by (simp add: c)
  next
    case False
    then have "run_task cfg d (e # es) = (fx, Some r)"
      by (cases r) (simp_all add: c)
    then show ?thesis using n by simp
  qed
qed

lemma notification_for_length: "length (notification_for cfg d r) \<le> Suc 0"
  by (cases "(cfg, d, r)" rule: notification_for.cases) simp_all

lemma batch_check_usage_notifications:
  "filter is_notification (fst (batch_check_usage cfg e data)) =
     (case snd (batch_check_usage cfg e data) of
        Batch_classified Alert u \<Rightarrow>
          if truthy (alert_notify_action cfg)
          then [Call_service (replace_dots (the (alert_notify_action cfg))) ''Irrigation Alert''
                  (Batch_usage_mismatch (py_trunc (of_int (projr (run_duration data)) / 60)) u)]
          else []
      | _ \<Rightarrow> [])"
  by (simp add: batch_check_usage_def batch_duration_def Let_def split: sum.split)

text \<open>
  C5. Over a whole verification task, that is the first run of \<^verbatim>\<open>check_usage\<close> and
  every retry it schedules, \<^verbatim>\<open>call_service\<close> is invoked at most once; an invocation
  belongs to a Confirmed ending with \<open>notify_ok_action\<close> set or to an Alert ending
  with \<open>notify_alert_action\<close> set, and goes to that action; a task that is abandoned
  as too old makes no call. The single run of the fixed-delay variant makes at most one
  call, for an Alert ending with \<open>alert_notify_action\<close> set.
\<close>

theorem notification_at_most_once_per_task:
  "length (filter is_notification (fst (run_task cfg d es))) \<le> 1 \<and>
   (Call_service a t m \<in> set (fst (run_task cfg d es)) \<longrightarrow>
      (\<exists>u l. snd (run_task cfg d es) = Some (Classified Confirmed u l) \<and>
             truthy (notify_ok_action cfg) \<and>
             a = replace_dots (the (notify_ok_action cfg)) \<and> t = ''Irrigation OK'') \<or>
      (\<exists>u l. snd (run_task cfg d es) = Some (Classified Alert u l) \<and>
             truthy (notify_alert_action cfg) \<and>
             a = replace_dots (the (notify_alert_action cfg)) \<and> t = ''Irrigation Alert'')) \<and>
   (snd (run_task cfg d es) = Some Abandoned \<longrightarrow>
      filter is_notification (fst (run_task cfg d es)) = []) \<and>
   length (filter is_notification (fst (batch_check_usage cfg e data))) \<le> 1 \<and>
   (Call_service a t m \<in> set (fst (batch_check_usage cfg e data)) \<longrightarrow>
      (\<exists>u. snd (batch_check_usage cfg e data) = Batch_classified Alert u) \<and>
      truthy (alert_notify_action cfg) \<and>
      a = replace_dots (the (alert_notify_action cfg)) \<and> t = ''Irrigation Alert'')"
proof -
  note n = run_task_notification_for[of cfg d es]
  note b = batch_check_usage_notifications[of cfg e data]
  have 1: "length (filter is_notification (fst (run_task cfg d es))) \<le> 1"
    by (simp add: n notification_for_length split: option.split)
  have 2: "Call_service a t m \<in> set (fst (run_task cfg d es)) \<longrightarrow>
      (\<exists>u l. snd (run_task cfg d es) = Some (Classified Confirmed u l) \<and>
             truthy (notify_ok_action cfg) \<and>
             a = replace_dots (the (notify_ok_action cfg)) \<and> t = ''Irrigation OK'') \<or>
      (\<exists>u l. snd (run_task cfg d es) = Some (Classified Alert u l) \<and>
             truthy (notify_alert_action cfg) \<and>
             a = replace_dots (the (notify_alert_action cfg)) \<and> t = ''Irrigation Alert'')"
  proof
    assume "Call_service a t m \<in> set (fst (run_task cfg d es))"
    then have m: "Call_service a t m \<in> set (filter is_notification (fst (run_task cfg d es)))"
      by simp
    show "(\<exists>u l. snd (run_task cfg d es) = Some (Classified Confirmed u l) \<and>
             truthy (notify_ok_action cfg) \<and>
             a = replace_dots (the (notify_ok_action cfg)) \<and> t = ''Irrigation OK'') \<or>
      (\<exists>u l. snd (run_task cfg d es) = Some (Classified Alert u l) \<and>
             truthy (notify_alert_action cfg) \<and>
             a = replace_dots (the (notify_alert_action cfg)) \<and> t = ''Irrigation Alert'')"
    proof (cases "snd (run_task cfg d es)")
      case None
      with m n show ?thesis by simp
    next
      case (Some r)
      with m n have x: "Call_service a t m \<in> set (notification_for cfg d r)" by simp
      show ?thesis
      proof (cases r)
        case (Classified v u l)
        show ?thesis
        proof (cases v)
          case Confirmed
          with x Classified Some show ?thesis by (simp split: if_splits)
        next
          case Alert
          with x Classified Some show ?thesis by (simp split: if_splits)
        qed
      qed (use x in simp_all)
    qed
  qed
  have 3: "snd (run_task cfg d es) = Some Abandoned \<longrightarrow>
      filter is_notification (fst (run_task cfg d es)) = []"
    by (simp add: n)
  have 4: "length (filter is_notification (fst (batch_check_usage cfg e data))) \<le> 1"
    by (simp add: b split: batch_ending.split verdict.split)
  have 5: "Call_service a t m \<in> set (fst (batch_check_usage cfg e data)) \<longrightarrow>
      (\<exists>u. snd (batch_check_usage cfg e data) = Batch_classified Alert u) \<and>
      truthy (alert_notify_action cfg) \<and>
      a = replace_dots (the (alert_notify_action cfg)) \<and> t = ''Irrigation Alert''"
  proof
    assume "Call_service a t m \<in> set (fst (batch_check_usage cfg e data))"
    then have "Call_service a t m \<in> set (filter is_notification (fst (batch_check_usage cfg e data)))"
      by simp
    then have x: "Call_service a t m \<in> set
        (case snd (batch_check_usage cfg e data) of
           Batch_classified Alert u \<Rightarrow>
             if truthy (alert_notify_action cfg)
             then [Call_service (replace_dots (the (alert_notify_action cfg))) ''Irrigation Alert''
                     (Batch_usage_mismatch (py_trunc (of_int (projr (run_duration data)) / 60)) u)]
             else []
         | _ \<Rightarrow> [])"
      by (simp only: b)
    show "(\<exists>u. snd (batch_check_usage cfg e data) = Batch_classified Alert u) \<and>
      truthy (alert_notify_action cfg) \<and>
      a = replace_dots (the (alert_notify_action cfg)) \<and> t = ''Irrigation Alert''"
    proof (cases "snd (batch_check_usage cfg e data)")
      case (Batch_raised er)
      with x show ?thesis by simp
    next
      case (Batch_classified v u)
      with x show ?thesis by (cases v) (simp_all split: if_splits)
    qed
  qed
  from 1 2 3 4 5 show ?thesis by blast
qed


theorem notification_at_most_once_per_task_witness:
  "snd (run_task scenario_config (scenario_run 600)
          [scenario_env (- 1000000) (Some [[Numeric 100, Numeric 140]]),
           scenario_env 120000000 (Some [[Numeric 100, Numeric 140]])])
     = Some (Classified Alert 40 4) \<and>
   filter is_notification
     (fst (run_task scenario_config (scenario_run 600)
          [scenario_env (- 1000000) (Some [[Numeric 100, Numeric 140]]),
           scenario_env 120000000 (Some [[Numeric 100, Numeric 140]])]))
     = [Call_service ''notify/alert'' ''Irrigation Alert'' (Usage_mismatch 10 40)] \<and>
   truthy (notify_alert_action scenario_config) \<and>
   snd (run_task scenario_config (scenario_run 600)
          [scenario_env 1860000000 (Some [[Numeric 100, Numeric 140]])]) = Some Abandoned \<and>
   filter is_notification
     (fst (run_task scenario_config (scenario_run 600)
          [scenario_env 1860000000 (Some [[Numeric 100, Numeric 140]])])) = []"
proof -
  let ?es = "[scenario_env (- 1000000) (Some [[Numeric 100, Numeric 140]]),
              scenario_env 120000000 (Some [[Numeric 100, Numeric 140]])]"
  let ?late = "[scenario_env 1860000000 (Some [[Numeric 100, Numeric 140]])]"
  have r1: "run_task scenario_config (scenario_run 600) ?es =
      ([Get_state usage_sensor ''last_reported'', Log (Not_yet_updated (- 1000000) 0),
        Run_in_check_usage 60 (scenario_run 600),
        Get_state usage_sensor ''last_reported'', Get_history usage_sensor (- 600000000),
        Log (Found_lpm 4 10 2), Log (Alert_line (Usage_mismatch 10 40)),
        Call_service ''notify/alert'' ''Irrigation Alert'' (Usage_mismatch 10 40)],
       Some (Classified Alert 40 4))"
    by (simp add: scenario_defs check_usage_eval)
  have r2: "snd (run_task scenario_config (scenario_run 600) ?late) = Some Abandoned"
    by (simp add: scenario_defs check_usage_eval)
  have t: "truthy (notify_alert_action scenario_config)" by (simp add: scenario_defs)
  have "filter is_notification (fst (run_task scenario_config (scenario_run 600) ?late)) = []"
    using notification_at_most_once_per_task[of scenario_config "scenario_run 600" ?late] r2
    by blast
  then show ?thesis using r1 r2 t by simp
qed

subsection \<open>Waiting for a report that covers the run\<close>

lemma run_task_no_covering_report:
  assumes "\<forall>e\<in>set es. \<exists>r. last_reported e = Some r \<and>
             (r < finish_time d \<or> timedelta_minutes 30 < r - finish_time d)"
  shows "snd (run_task cfg d es) = None \<or> snd (run_task cfg d es) = Some Abandoned"
  using assms
proof (induction es)
  case Nil
  show ?case by simp
next
  case (Cons e es)
  then obtain r where r: "last_reported e = Some r"
    and c: "r < finish_time d \<or> timedelta_minutes 30 < r - finish_time d" by auto
  show ?case
  proof (cases "r < finish_time d")
    case True
    from Cons have "snd (run_task cfg d es) = None \<or> snd (run_task cfg d es) = Some Abandoned"
      by simp
    then show ?thesis by (simp add: check_usage_retry[OF r True])
  next
    case False
    with c have "timedelta_minutes 30 < r - finish_time d" by simp
    then show ?thesis by (simp add: check_usage_too_old[OF r])
  qed
qed

lemma run_task_stale_reports:
  assumes "\<forall>e\<in>set es. \<exists>r. last_reported e = Some r \<and> r < finish_time d"
  shows "snd (run_task cfg d es) = None \<and>
         length (filter is_check_usage_timer (fst (run_task cfg d es))) = length es"
  using assms
proof (induction es)
  case Nil
  show ?case by simp
next
  case (Cons e es)
  then obtain r where r: "last_reported e = Some r" and c: "r < finish_time d" by auto
  from Cons have "snd (run_task cfg d es) = None \<and>
         length (filter is_check_usage_timer (fst (run_task cfg d es))) = length es" by simp
  then show ?case by (simp add: check_usage_retry[OF r c])
qed


text \<open>
  C1 as stated fails: the handler tests \<open>reported < finish_time\<close> before it looks at
  the 30 minutes, and it never compares the clock with the finish time. Two hours after
  the finish, with a last report from before the finish, it schedules one more retry; a
  task whose forty checks over forty minutes all see such a report is still waiting.
\<close>

theorem deadline_before_retry_counterexample:
  "timedelta_minutes 30 < now_tz (stale_env 7200000000) - finish_time (scenario_run 600) \<and>
   check_usage scenario_config (stale_env 7200000000) (scenario_run 600) =
     ([Get_state usage_sensor ''last_reported'', Log (Not_yet_updated (- 1000000) 0),
       Run_in_check_usage 60 (scenario_run 600)], Retry_scheduled) \<and>
   snd (run_task scenario_config (scenario_run 600)
          (map (\<lambda>k. stale_env (30000000 + 60000000 * int k)) [0..<40])) = None \<and>
   length (filter is_check_usage_timer
             (fst (run_task scenario_config (scenario_run 600)
                     (map (\<lambda>k. stale_env (30000000 + 60000000 * int k)) [0..<40])))) = 40"
proof -
  have a: "timedelta_minutes 30 < now_tz (stale_env 7200000000) - finish_time (scenario_run 600)"
    by (simp add: stale_env_def scenario_defs timedelta_minutes_def)
  have r: "last_reported (stale_env 7200000000) = Some (- 1000000)"
    by (simp add: stale_env_def)
  have f: "finish_time (scenario_run 600) = 0" by (simp add: scenario_defs)
  have b: "check_usage scenario_config (stale_env 7200000000) (scenario_run 600) =
     ([Get_state usage_sensor ''last_reported'', Log (Not_yet_updated (- 1000000) 0),
       Run_in_check_usage 60 (scenario_run 600)], Retry_scheduled)"
    using check_usage_retry[OF r, of "scenario_run 600" scenario_config] by (simp add: f)
  have "\<forall>e\<in>set (map (\<lambda>k. stale_env (30000000 + 60000000 * int k)) [0..<40]).
          \<exists>r. last_reported e = Some r \<and> r < finish_time (scenario_run 600)"
    by (simp add: stale_env_def f)
  from run_task_stale_reports[OF this, of scenario_config] a b show ?thesis by simp
qed

text \<open>
  C1, amended. When every report the task sees is either older than the finish time or
  more than 30 minutes newer, the task never notifies: it is still waiting or it has
  been abandoned. A report more than 30 minutes after the finish makes the handler log
  the error and stop, with no retry; a report older than the finish makes it schedule a
  retry in 60 seconds, whatever the clock says.
\<close>

theorem no_covering_report_never_notifies:
  assumes "\<forall>e\<in>set es. \<exists>r. last_reported e = Some r \<and>
             (r < finish_time d \<or> timedelta_minutes 30 < r - finish_time d)"
  shows "(snd (run_task cfg d es) = None \<or> snd (run_task cfg d es) = Some Abandoned) \<and>
         filter is_notification (fst (run_task cfg d es)) = [] \<and>
         (\<forall>e r. last_reported e = Some r \<and> timedelta_minutes 30 < r - finish_time d \<longrightarrow>
            check_usage cfg e d =
              ([Get_state usage_sensor ''last_reported'', Log_error (Too_old (finish_time d))],
               Abandoned)) \<and>
         (\<forall>e r. last_reported e = Some r \<and> r < finish_time d \<longrightarrow>
            check_usage cfg e d =
              ([Get_state usage_sensor ''last_reported'',
                Log (Not_yet_updated r (finish_time d)), Run_in_check_usage 60 d],
               Retry_scheduled))"
proof -
  have 1: "snd (run_task cfg d es) = None \<or> snd (run_task cfg d es) = Some Abandoned"
    by (rule run_task_no_covering_report[OF assms])
  then have 2: "filter is_notification (fst (run_task cfg d es)) = []"
    using run_task_notification_for[of cfg d es] by auto
  show ?thesis using 1 2 check_usage_too_old check_usage_retry by blast
qed

theorem no_covering_report_never_notifies_witness:
  "last_reported (stale_env 30000000) = Some (- 1000000) \<and>
   - 1000000 < finish_time (scenario_run 600) \<and>
   last_reported (scenario_env 1860000000 None) = Some 1860000000 \<and>
   timedelta_minutes 30 < 1860000000 - finish_time (scenario_run 600) \<and>
   snd (run_task scenario_config (scenario_run 600)
          [stale_env 30000000, scenario_env 1860000000 None]) = Some Abandoned \<and>
   filter is_notification
     (fst (run_task scenario_config (scenario_run 600)
             [stale_env 30000000, scenario_env 1860000000 None])) = []"
proof -
  have h: "last_reported (stale_env 30000000) = Some (- 1000000)"
      "- 1000000 < finish_time (scenario_run 600)"
      "last_reported (scenario_env 1860000000 None) = Some 1860000000"
      "timedelta_minutes 30 < 1860000000 - finish_time (scenario_run 600)"
    by (simp_all add: stale_env_def scenario_defs timedelta_minutes_def)
  have p: "\<forall>e\<in>set [stale_env 30000000, scenario_env 1860000000 None].
             \<exists>r. last_reported e = Some r \<and>
               (r < finish_time (scenario_run 600) \<or>
                timedelta_minutes 30 < r - finish_time (scenario_run 600))"
    using h by simp
  have s: "snd (run_task scenario_config (scenario_run 600)
          [stale_env 30000000, scenario_env 1860000000 None]) = Some Abandoned"
    by (simp add: check_usage_retry[OF h(1) h(2)] check_usage_too_old[OF h(3) h(4)])
  show ?thesis
    using no_covering_report_never_notifies[OF p, of scenario_config] h s by simp
qed

subsection \<open>A counter that went backwards\<close>

lemma py_trunc_negative: "q < 0 \<Longrightarrow> py_trunc q \<le> 0"
  by (simp add: py_trunc_def ceiling_le_iff)

lemma flow_nonpositive:
  assumes "u \<le> 0" and "0 < dur"
  shows "rat_of_int u / (rat_of_int dur / 60) \<le> 0"
proof -
  have "rat_of_int u \<le> 0" using assms(1) by simp
  moreover have "0 < rat_of_int dur / 60" using assms(2) by simp
  ultimately show ?thesis by (rule divide_nonpos_pos)
qed

text \<open>
  C6 as stated fails: the handler has no test for a negative delta. With a history from
  500 down to 20 litres the delta is -480; the run is classified Alert with a flow rate
  of -48 litres per minute and the alert notification is sent.
\<close>

theorem negative_delta_counterexample:
  "get_history_state_delta (scenario_env 120000000 (Some [[Numeric 500, Numeric 20]]))
      usage_sensor
      (start_time_of (scenario_env 120000000 (Some [[Numeric 500, Numeric 20]]))
         (scenario_run 600)) = Inr (- 480) \<and>
   snd (check_usage scenario_config (scenario_env 120000000 (Some [[Numeric 500, Numeric 20]]))
          (scenario_run 600)) = Classified Alert (- 480) (- 48) \<and>
   filter is_notification
     (fst (check_usage scenario_config (scenario_env 120000000 (Some [[Numeric 500, Numeric 20]]))
          (scenario_run 600)))
     = [Call_service ''notify/alert'' ''Irrigation Alert'' (Usage_mismatch 10 (- 480))]"
  by (simp add: scenario_defs check_usage_eval)

text \<open>
  C6, amended. A negative usage delta is classified like any other: it is truncated
  toward zero and divided by the minutes of the run. For a run of positive duration and
  a threshold that is not negative the ending is Alert, and the alert notification is
  sent exactly when \<open>notify_alert_action\<close> is set.
\<close>

theorem negative_delta_is_classified:
  assumes "last_reported e = Some r" and "finish_time d \<le> r"
    and "r - finish_time d \<le> timedelta_minutes 30"
    and "get_history_state_delta e usage_sensor (start_time_of e d) = Inr delta"
    and "delta < 0" and "0 < duration d" and "0 \<le> min_expected_lpm cfg"
  shows "snd (check_usage cfg e d) =
           Classified Alert (py_trunc delta)
             (of_int (py_trunc delta) / (of_int (duration d) / 60)) \<and>
         filter is_notification (fst (check_usage cfg e d)) =
           (if truthy (notify_alert_action cfg)
            then [Call_service (replace_dots (the (notify_alert_action cfg))) ''Irrigation Alert''
                    (Usage_mismatch (fmt_mins (of_int (duration d))) (py_trunc delta))]
            else [])"
proof -
  have "rat_of_int (py_trunc delta) / (rat_of_int (duration d) / 60) \<le> 0"
    by (rule flow_nonpositive[OF py_trunc_negative[OF assms(5)] assms(6)])
  moreover have "0 \<le> rat_of_int (min_expected_lpm cfg)" using assms(7) by simp
  ultimately have n: "\<not> rat_of_int (min_expected_lpm cfg)
                      < rat_of_int (py_trunc delta) / (rat_of_int (duration d) / 60)"
    by linarith
  have s: "snd (check_usage cfg e d) =
           Classified Alert (py_trunc delta)
             (of_int (py_trunc delta) / (of_int (duration d) / 60))"
    using assms(4,6) n by (simp add: check_usage_ending[OF assms(1-3)])
  show ?thesis by (simp add: s check_usage_notification_for)
qed

theorem negative_delta_is_classified_witness:
  "last_reported (scenario_env 120000000 (Some [[Numeric 500, Numeric 20]])) = Some 120000000 \<and>
   finish_time (scenario_run 600) \<le> 120000000 \<and>
   120000000 - finish_time (scenario_run 600) \<le> timedelta_minutes 30 \<and>
   get_history_state_delta (scenario_env 120000000 (Some [[Numeric 500, Numeric 20]]))
      usage_sensor
      (start_time_of (scenario_env 120000000 (Some [[Numeric 500, Numeric 20]]))
         (scenario_run 600)) = Inr (- 480) \<and>
   (- 480 :: rat) < 0 \<and> 0 < duration (scenario_run 600) \<and>
   0 \<le> min_expected_lpm scenario_config \<and>
   snd (check_usage scenario_config (scenario_env 120000000 (Some [[Numeric 500, Numeric 20]]))
          (scenario_run 600)) = Classified Alert (- 480) (- 480 / (600 / 60))"
proof -
  let ?ea = "scenario_env 120000000 (Some [[Numeric 500, Numeric 20]])"
  have h1: "last_reported ?ea = Some 120000000" by (simp add: scenario_defs)
  have h2: "finish_time (scenario_run 600) \<le> 120000000" by (simp add: scenario_defs)
  have h3: "120000000 - finish_time (scenario_run 600) \<le> timedelta_minutes 30"
    by (simp add: scenario_defs timedelta_minutes_def)
  have h4: "get_history_state_delta ?ea usage_sensor (start_time_of ?ea (scenario_run 600))
              = Inr (- 480)"
    by (simp add: scenario_defs get_history_state_delta_def state_delta_def)
  have h5: "(- 480 :: rat) < 0" by simp
  have h6: "0 < duration (scenario_run 600)" by (simp add: scenario_defs)
  have h7: "0 \<le> min_expected_lpm scenario_config" by (simp add: scenario_defs)
  have t: "py_trunc (- 480) = - 480" by (simp add: py_trunc_def)
  have c: "duration (scenario_run 600) = 600" by (simp add: scenario_defs)
  show ?thesis
    using negative_delta_is_classified[OF h1 h2 h3 h4 h5 h6 h7] h1 h2 h3 h4 h6 h7
    by (simp add: t c)
qed

subsection \<open>A history with fewer than two points\<close>

lemma state_delta_single: "py_float p = Inr q \<Longrightarrow> state_delta (Some ([p] # rest)) = Inr 0"
  by (simp add: state_delta_def)

lemma state_delta_empty:
  "state_delta (Some []) = Inl IndexError" "state_delta (Some ([] # rest)) = Inl IndexError"
  by (simp_all add: state_delta_def)

lemma check_usage_history_error:
  assumes "last_reported e = Some r" and "finish_time d \<le> r"
    and "r - finish_time d \<le> timedelta_minutes 30"
    and "get_history_state_delta e usage_sensor (start_time_of e d) = Inl er"
  shows "snd (check_usage cfg e d) = Raised er"
    and "filter is_check_usage_timer (fst (check_usage cfg e d)) = []"
    and "filter is_notification (fst (check_usage cfg e d)) = []"
proof -
  show s: "snd (check_usage cfg e d) = Raised er"
    using assms(4) by (simp add: check_usage_ending[OF assms(1-3)])
  show "filter is_check_usage_timer (fst (check_usage cfg e d)) = []"
    by (simp add: check_usage_timers s)
  show "filter is_notification (fst (check_usage cfg e d)) = []"
    by (simp add: check_usage_notification_for s)
qed

lemma batch_check_usage_history_error:
  assumes "batch_duration data = Inr m"
    and "batch_get_history_state_delta e usage_sensor (delay_minutes cfg + m) = Inl er"
  shows "batch_check_usage cfg e data =
           ([Get_history usage_sensor (batch_start_time e (delay_minutes cfg + m))],
            Batch_raised er)"
  using assms by (simp add: batch_check_usage_def)

text \<open>
  C7 as stated fails. A history of one point gives the delta 0, since the first and the
  last state are the same entry, and the run is classified Alert and notified. An empty
  history makes the indexing raise \<^verbatim>\<open>IndexError\<close>, which ends the check without a
  retry timer.
\<close>

theorem short_history_window_counterexample:
  "state_delta (Some [[Numeric 100]]) = Inr 0 \<and>
   snd (check_usage scenario_config (scenario_env 120000000 (Some [[Numeric 100]]))
          (scenario_run 600)) = Classified Alert 0 0 \<and>
   filter is_notification
     (fst (check_usage scenario_config (scenario_env 120000000 (Some [[Numeric 100]]))
          (scenario_run 600)))
     = [Call_service ''notify/alert'' ''Irrigation Alert'' (Usage_mismatch 10 0)] \<and>
   snd (check_usage scenario_config (scenario_env 120000000 (Some [[]]))
          (scenario_run 600)) = Raised IndexError \<and>
   filter is_check_usage_timer
     (fst (check_usage scenario_config (scenario_env 120000000 (Some [[]]))
          (scenario_run 600))) = []"
  by (simp add: scenario_defs check_usage_eval)

text \<open>
  C7, amended. A history of exactly one numeric point yields the delta 0 and is
  classified: Alert for a run of positive duration and a threshold that is not negative.
  A history with no point makes the delta operation raise \<^verbatim>\<open>IndexError\<close>; any exception
  of the delta operation ends the check as that exception, with no retry timer, no
  classification and no notification, in both variants.
\<close>

theorem short_history_window:
  "(py_float p = Inr q \<longrightarrow> state_delta (Some ([p] # rest)) = Inr 0) \<and>
   state_delta (Some []) = Inl IndexError \<and>
   state_delta (Some ([] # rest)) = Inl IndexError \<and>
   (last_reported e = Some r \<and> finish_time d \<le> r \<and>
    r - finish_time d \<le> timedelta_minutes 30 \<and>
    get_history_state_delta e usage_sensor (start_time_of e d) = Inl er \<longrightarrow>
      snd (check_usage cfg e d) = Raised er \<and>
      filter is_check_usage_timer (fst (check_usage cfg e d)) = [] \<and>
      filter is_notification (fst (check_usage cfg e d)) = []) \<and>
   (last_reported e = Some r \<and> finish_time d \<le> r \<and>
    r - finish_time d \<le> timedelta_minutes 30 \<and>
    get_history e usage_sensor (start_time_of e d) = Some ([p] # rest) \<and>
    py_float p = Inr q \<and> 0 < duration d \<and> 0 \<le> min_expected_lpm cfg \<longrightarrow>
      snd (check_usage cfg e d) = Classified Alert 0 0) \<and>
   (batch_duration data = Inr m \<and>
    batch_get_history_state_delta e usage_sensor (delay_minutes cfg + m) = Inl er \<longrightarrow>
      batch_check_usage cfg e data =
        ([Get_history usage_sensor (batch_start_time e (delay_minutes cfg + m))],
         Batch_raised er))"
proof (intro conjI impI)
  assume "py_float p = Inr q"
  then show "state_delta (Some ([p] # rest)) = Inr 0" by (rule state_delta_single)
next
  show "state_delta (Some []) = Inl IndexError" by (rule state_delta_empty)
  show "state_delta (Some ([] # rest)) = Inl IndexError" by (rule state_delta_empty)
next
  assume a: "last_reported e = Some r \<and> finish_time d \<le> r \<and>
    r - finish_time d \<le> timedelta_minutes 30 \<and>
    get_history_state_delta e usage_sensor (start_time_of e d) = Inl er"
  then have f: "last_reported e = Some r" "finish_time d \<le> r"
      "r - finish_time d \<le> timedelta_minutes 30"
      "get_history_state_delta e usage_sensor (start_time_of e d) = Inl er"
    by simp_all
  show "snd (check_usage cfg e d) = Raised er"
    by (rule check_usage_history_error(1)[OF f])
  show "filter is_check_usage_timer (fst (check_usage cfg e d)) = []"
    by (rule check_usage_history_error(2)[OF f])
  show "filter is_notification (fst (check_usage cfg e d)) = []"
    by (rule check_usage_history_error(3)[OF f])
next
  assume a: "last_reported e = Some r \<and> finish_time d \<le> r \<and>
    r - finish_time d \<le> timedelta_minutes 30 \<and>
    get_history e usage_sensor (start_time_of e d) = Some ([p] # rest) \<and>
    py_float p = Inr q \<and> 0 < duration d \<and> 0 \<le> min_expected_lpm cfg"
  then have f: "last_reported e = Some r" "finish_time d \<le> r"
      "r - finish_time d \<le> timedelta_minutes 30" by simp_all
  from a have "get_history_state_delta e usage_sensor (start_time_of e d) = Inr 0"
    by (simp add: get_history_state_delta_def state_delta_single)
  moreover have "py_trunc 0 = 0" by (simp add: py_trunc_def)
  ultimately show "snd (check_usage cfg e d) = Classified Alert 0 0"
    using a by (simp add: check_usage_ending[OF f])
next
  assume "batch_duration data = Inr m \<and>
    batch_get_history_state_delta e usage_sensor (delay_minutes cfg + m) = Inl er"
  then show "batch_check_usage cfg e data =
        ([Get_history usage_sensor (batch_start_time e (delay_minutes cfg + m))],
         Batch_raised er)"
    using batch_check_usage_history_error by blast
qed


theorem short_history_window_witness:
  "py_float (Numeric 100) = Inr 100 \<and>
   last_reported (scenario_env 120000000 (Some [[]])) = Some 120000000 \<and>
   finish_time (scenario_run 600) \<le> 120000000 \<and>
   120000000 - finish_time (scenario_run 600) \<le> timedelta_minutes 30 \<and>
   get_history_state_delta (scenario_env 120000000 (Some [[]])) usage_sensor
     (start_time_of (scenario_env 120000000 (Some [[]])) (scenario_run 600)) = Inl IndexError \<and>
   snd (check_usage scenario_config (scenario_env 120000000 (Some [[]])) (scenario_run 600))
     = Raised IndexError \<and>
   filter is_check_usage_timer
     (fst (check_usage scenario_config (scenario_env 120000000 (Some [[]])) (scenario_run 600)))
     = [] \<and>
   get_history (scenario_env 120000000 (Some [[Numeric 100]])) usage_sensor
     (start_time_of (scenario_env 120000000 (Some [[Numeric 100]])) (scenario_run 600))
     = Some [[Numeric 100]] \<and>
   0 < duration (scenario_run 600) \<and> 0 \<le> min_expected_lpm scenario_config \<and>
   snd (check_usage scenario_config (scenario_env 120000000 (Some [[Numeric 100]]))
          (scenario_run 600)) = Classified Alert 0 0"
proof -
  let ?ea = "scenario_env 120000000 (Some [[]])"
  let ?eb = "scenario_env 120000000 (Some [[Numeric 100]])"
  have h0: "py_float (Numeric 100) = Inr 100" by simp
  have h1: "last_reported ?ea = Some 120000000" "last_reported ?eb = Some 120000000"
    by (simp_all add: scenario_defs)
  have h2: "finish_time (scenario_run 600) \<le> 120000000" by (simp add: scenario_defs)
  have h3: "120000000 - finish_time (scenario_run 600) \<le> timedelta_minutes 30"
    by (simp add: scenario_defs timedelta_minutes_def)
  have h4: "get_history_state_delta ?ea usage_sensor (start_time_of ?ea (scenario_run 600))
              = Inl IndexError"
    by (simp add: scenario_defs get_history_state_delta_def state_delta_def)
  have h5: "get_history ?eb usage_sensor (start_time_of ?eb (scenario_run 600))
              = Some [[Numeric 100]]"
    by (simp add: scenario_defs)
  have h6: "0 < duration (scenario_run 600)" "0 \<le> min_expected_lpm scenario_config"
    by (simp_all add: scenario_defs)
  note t1 = short_history_window[of "Numeric 100" 100 "[]" ?ea 120000000 "scenario_run 600"
              IndexError scenario_config]
  note t2 = short_history_window[of "Numeric 100" 100 "[]" ?eb 120000000 "scenario_run 600"
              IndexError scenario_config]
  have a: "snd (check_usage scenario_config ?ea (scenario_run 600)) = Raised IndexError \<and>
      filter is_check_usage_timer (fst (check_usage scenario_config ?ea (scenario_run 600))) = []"
    using t1 h1 h2 h3 h4 by blast
  have b: "snd (check_usage scenario_config ?eb (scenario_run 600)) = Classified Alert 0 0"
    using t2 h0 h1 h2 h3 h5 h6 by blast
  show ?thesis using a b h0 h1 h2 h3 h4 h5 h6 by simp
qed

subsection \<open>Exceptions\<close>









subsection \<open>Runs of no duration\<close>

lemma scheduled_duration_positive:
  assumes "matches cfg data" and "run_duration data = Inr dd" and "0 < min_duration cfg"
    and "Run_in_check_usage n rd \<in> set (fst (irrigation_complete cfg now data))"
  shows "60 * min_duration cfg \<le> duration rd"
proof (cases "dd < 60 * min_duration cfg")
  case True
  from assms(4) show ?thesis
    by (simp add: irrigation_complete_short[OF assms(1,2) True] split: if_splits)
next
  case False
  then have l: "60 * min_duration cfg \<le> dd" by simp
  from assms(4) have "rd = \<lparr>event = data, duration = dd, finish_time = now\<rparr>"
    by (simp add: irrigation_complete_long[OF assms(1,2) l] split: if_splits)
  then show ?thesis using l by simp
qed

text \<open>
  C9 as stated fails: \<^verbatim>\<open>check_usage\<close> never tests the duration. Given a duration of
  -600 seconds it divides and classifies (40 litres over -10 minutes, Alert); given 0 it
  performs the division, which raises \<^verbatim>\<open>ZeroDivisionError\<close>; with \<open>min_duration\<close> set
  to 0 an event of duration 0 is handed on to it. The fixed-delay variant multiplies
  instead of dividing and confirms a run of 0 minutes with any positive usage.
\<close>

theorem nonpositive_duration_counterexample:
  "snd (check_usage scenario_config (scenario_env 120000000 (Some [[Numeric 100, Numeric 140]]))
          (scenario_run (- 600))) = Classified Alert 40 (- 4) \<and>
   snd (check_usage scenario_config (scenario_env 120000000 (Some [[Numeric 100, Numeric 140]]))
          (scenario_run 0)) = Raised ZeroDivisionError \<and>
   irrigation_complete (scenario_config\<lparr>min_duration := 0\<rparr>) 0 (run_event (PInt 0)) =
     ([Log Beginning_checks, Run_in_check_usage 30 (scenario_run 0)], None) \<and>
   snd (batch_check_usage scenario_config
          (scenario_env 120000000 (Some [[Numeric 100, Numeric 140]])) (run_event (PInt 0)))
     = Batch_classified Confirmed 40"
proof -
  have a: "snd (check_usage scenario_config
                 (scenario_env 120000000 (Some [[Numeric 100, Numeric 140]]))
                 (scenario_run (- 600))) = Classified Alert 40 (- 4)"
    by (simp add: scenario_defs check_usage_eval)
  have b: "snd (check_usage scenario_config
                 (scenario_env 120000000 (Some [[Numeric 100, Numeric 140]]))
                 (scenario_run 0)) = Raised ZeroDivisionError"
    by (simp add: scenario_defs check_usage_eval)
  have c: "irrigation_complete (scenario_config\<lparr>min_duration := 0\<rparr>) 0 (run_event (PInt 0)) =
     ([Log Beginning_checks, Run_in_check_usage 30 (scenario_run 0)], None)"
    by (simp add: irrigation_complete_def run_duration_def scenario_defs)
  have d: "snd (batch_check_usage scenario_config
          (scenario_env 120000000 (Some [[Numeric 100, Numeric 140]])) (run_event (PInt 0)))
     = Batch_classified Confirmed 40"
    by (simp add: scenario_defs batch_check_usage_eval)
  show ?thesis using a b c d by simp
qed

text \<open>
  C9, amended. With a positive \<open>min_duration\<close> every run that
  \<^verbatim>\<open>irrigation_complete\<close> hands on to \<^verbatim>\<open>check_usage\<close> has a positive duration: the
  minimum-duration filter keeps the others out. \<^verbatim>\<open>check_usage\<close> itself does not reject
  them: at duration 0 the division raises \<^verbatim>\<open>ZeroDivisionError\<close>, at a negative duration
  the division is performed and the run classified.
\<close>

theorem nonpositive_duration_is_filtered_not_rejected:
  "(matches cfg data \<and> run_duration data = Inr dd \<and> 0 < min_duration cfg \<and>
    Run_in_check_usage n rd \<in> set (fst (irrigation_complete cfg now data)) \<longrightarrow>
      0 < duration rd) \<and>
   (last_reported e = Some r \<and> finish_time d \<le> r \<and>
    r - finish_time d \<le> timedelta_minutes 30 \<and>
    get_history_state_delta e usage_sensor (start_time_of e d) = Inr delta \<longrightarrow>
      (duration d = 0 \<longrightarrow> snd (check_usage cfg e d) = Raised ZeroDivisionError) \<and>
      (duration d < 0 \<longrightarrow>
         snd (check_usage cfg e d) =
           Classified
             (if rat_of_int (min_expected_lpm cfg)
                   < of_int (py_trunc delta) / (of_int (duration d) / 60)
              then Confirmed else Alert)
             (py_trunc delta)
             (of_int (py_trunc delta) / (of_int (duration d) / 60))))"
proof (intro conjI impI)
  assume "matches cfg data \<and> run_duration data = Inr dd \<and> 0 < min_duration cfg \<and>
    Run_in_check_usage n rd \<in> set (fst (irrigation_complete cfg now data))"
  then have "60 * min_duration cfg \<le> duration rd" and "0 < min_duration cfg"
    using scheduled_duration_positive by blast+
  then show "0 < duration rd" by linarith
next
  assume a: "last_reported e = Some r \<and> finish_time d \<le> r \<and>
    r - finish_time d \<le> timedelta_minutes 30 \<and>
    get_history_state_delta e usage_sensor (start_time_of e d) = Inr delta"
  then have f: "last_reported e = Some r" "finish_time d \<le> r"
      "r - finish_time d \<le> timedelta_minutes 30" by simp_all
  { assume "duration d = 0"
    then show "snd (check_usage cfg e d) = Raised ZeroDivisionError"
      using a by (simp add: check_usage_ending[OF f]) }
  { assume "duration d < 0"
    then show "snd (check_usage cfg e d) =
           Classified
             (if rat_of_int (min_expected_lpm cfg)
                   < of_int (py_trunc delta) / (of_int (duration d) / 60)
              then Confirmed else Alert)
             (py_trunc delta)
             (of_int (py_trunc delta) / (of_int (duration d) / 60))"
      using a by (simp add: check_usage_ending[OF f]) }
qed


theorem nonpositive_duration_is_filtered_not_rejected_witness:
  "matches scenario_config (run_event (PInt 600)) \<and>
   run_duration (run_event (PInt 600)) = Inr 600 \<and>
   0 < min_duration scenario_config \<and>
   Run_in_check_usage 30 (scenario_run 600)
     \<in> set (fst (irrigation_complete scenario_config 0 (run_event (PInt 600)))) \<and>
   0 < duration (scenario_run 600) \<and>
   last_reported (scenario_env 120000000 (Some [[Numeric 100, Numeric 140]])) = Some 120000000 \<and>
   finish_time (scenario_run 0) \<le> 120000000 \<and>
   120000000 - finish_time (scenario_run 0) \<le> timedelta_minutes 30 \<and>
   get_history_state_delta (scenario_env 120000000 (Some [[Numeric 100, Numeric 140]]))
     usage_sensor
     (start_time_of (scenario_env 120000000 (Some [[Numeric 100, Numeric 140]])) (scenario_run 0))
     = Inr 40 \<and>
   duration (scenario_run 0) = 0 \<and>
   snd (check_usage scenario_config (scenario_env 120000000 (Some [[Numeric 100, Numeric 140]]))
          (scenario_run 0)) = Raised ZeroDivisionError"
proof -
  let ?ea = "scenario_env 120000000 (Some [[Numeric 100, Numeric 140]])"
  have m: "matches scenario_config (run_event (PInt 600))"
    by (simp add: matches_def scenario_defs)
  have r: "run_duration (run_event (PInt 600)) = Inr 600"
    by (simp add: run_duration_def scenario_defs)
  have p: "0 < min_duration scenario_config" by (simp add: scenario_defs)
  have l: "60 * min_duration scenario_config \<le> 600" by (simp add: scenario_defs)
  have i: "Run_in_check_usage 30 (scenario_run 600)
     \<in> set (fst (irrigation_complete scenario_config 0 (run_event (PInt 600))))"
    by (simp add: irrigation_complete_long[OF m r l] scenario_run_def)
  have h: "last_reported ?ea = Some 120000000" "finish_time (scenario_run 0) \<le> 120000000"
      "120000000 - finish_time (scenario_run 0) \<le> timedelta_minutes 30"
      "get_history_state_delta ?ea usage_sensor (start_time_of ?ea (scenario_run 0)) = Inr 40"
      "duration (scenario_run 0) = 0"
    by (simp_all add: scenario_defs timedelta_minutes_def get_history_state_delta_def
        state_delta_def)
  note t = nonpositive_duration_is_filtered_not_rejected[where cfg = scenario_config
             and data = "run_event (PInt 600)" and dd = 600 and n = 30
             and rd = "scenario_run 600" and now = 0 and e = ?ea and r = 120000000
             and d = "scenario_run 0" and delta = 40]
  have a: "0 < duration (scenario_run 600)" using t m r p i by blast
  have b: "snd (check_usage scenario_config ?ea (scenario_run 0)) = Raised ZeroDivisionError"
    using t h by blast
  show ?thesis using m r p i a h b by simp
qed

subsection \<open>The history window\<close>

lemma py_round_of_int: "py_round (of_int k) = k"
  by (simp add: py_round_def)

lemma timedelta_seconds_of_int: "timedelta_seconds (of_int n) = n * 1000000"
proof -
  have "(of_int n :: rat) * 1000000 = of_int (n * 1000000)" by simp
  then show ?thesis unfolding timedelta_seconds_def by (simp only: py_round_of_int)
qed

lemma start_time_of_eq:
  "start_time_of e d = finish_time d - duration d * 1000000 - (now_tz e - now_local e)"
  by (simp add: start_time_of_def timedelta_seconds_of_int)

lemma check_usage_history_query:
  assumes "last_reported e = Some r" and "finish_time d \<le> r"
    and "r - finish_time d \<le> timedelta_minutes 30"
  shows "filter is_history_query (fst (check_usage cfg e d)) =
           [Get_history usage_sensor (start_time_of e d)]"
  using assms
  by (simp add: check_usage_def Let_def notify_ok_def notify_alert_def split: sum.split)

lemma batch_check_usage_history_query:
  assumes "batch_duration data = Inr m"
  shows "filter is_history_query (fst (batch_check_usage cfg e data)) =
           [Get_history usage_sensor (now_local e - (delay_minutes cfg + m) * 60000000)]"
  using assms
  by (simp add: batch_check_usage_def Let_def batch_start_time_def timedelta_minutes_def
      split: sum.split)

text \<open>
  C10 as stated fails. The fixed-delay variant asks for the history of the last
  \<open>delay_minutes\<close> plus whole minutes of the run, counted back from the time of the
  query: for a run of 200 seconds that finished at 0 and is checked at 600 seconds the
  window starts at -180 seconds, not at -200. The retrying variant reads the clock
  twice; when the second reading is 7 microseconds later the window starts 7
  microseconds before finish minus duration.
\<close>

theorem history_window_counterexample:
  "batch_duration (run_event (PInt 200)) = Inr 3 \<and>
   filter is_history_query
     (fst (batch_check_usage scenario_config
             ((scenario_env 0 (Some [[Numeric 100, Numeric 140]]))
                \<lparr>now_local := 600000000, now_tz := 600000000\<rparr>)
             (run_event (PInt 200))))
     = [Get_history usage_sensor (- 180000000)] \<and>
   (- 180000000 :: int) \<noteq> 0 - 200 * 1000000 \<and>
   filter is_history_query
     (fst (check_usage scenario_config
             ((scenario_env 120000000 (Some [[Numeric 100, Numeric 140]]))
                \<lparr>now_local := 150000000, now_tz := 150000007\<rparr>)
             (scenario_run 600)))
     = [Get_history usage_sensor (- 600000007)] \<and>
   (- 600000007 :: int) \<noteq> finish_time (scenario_run 600) - duration (scenario_run 600) * 1000000"
proof -
  have a: "batch_duration (run_event (PInt 200)) = Inr 3"
    by (simp add: batch_duration_def run_duration_def scenario_defs py_trunc_def floor_eq_iff)
  have b: "filter is_history_query
     (fst (batch_check_usage scenario_config
             ((scenario_env 0 (Some [[Numeric 100, Numeric 140]]))
                \<lparr>now_local := 600000000, now_tz := 600000000\<rparr>)
             (run_event (PInt 200))))
     = [Get_history usage_sensor (- 180000000)]"
    using batch_check_usage_history_query[OF a, of scenario_config
            "(scenario_env 0 (Some [[Numeric 100, Numeric 140]]))
                \<lparr>now_local := 600000000, now_tz := 600000000\<rparr>"]
    by (simp add: scenario_config_def default_config_def scenario_env_def)
  have c: "filter is_history_query
     (fst (check_usage scenario_config
             ((scenario_env 120000000 (Some [[Numeric 100, Numeric 140]]))
                \<lparr>now_local := 150000000, now_tz := 150000007\<rparr>)
             (scenario_run 600)))
     = [Get_history usage_sensor (- 600000007)]"
    by (simp add: scenario_defs check_usage_eval)
  have d: "(- 600000007 :: int) \<noteq>
             finish_time (scenario_run 600) - duration (scenario_run 600) * 1000000"
    by (simp add: scenario_defs)
  show ?thesis using a b c d by simp
qed

text \<open>
  C10, amended. The retrying variant queries the history once per classification
  attempt, from \<open>finish_time\<close> minus the duration, shifted back by the time between
  its two clock readings; when the readings agree that is exactly the start of the run.
  The fixed-delay variant queries from \<open>delay_minutes\<close> plus the whole minutes of the
  run before the time of the query. Both pass a start time only, so the window ends at
  the time of the query.
\<close>

theorem history_window_start:
  "start_time_of e d = finish_time d - duration d * 1000000 - (now_tz e - now_local e) \<and>
   (now_local e = now_tz e \<longrightarrow> start_time_of e d = finish_time d - duration d * 1000000) \<and>
   (last_reported e = Some r \<and> finish_time d \<le> r \<and>
    r - finish_time d \<le> timedelta_minutes 30 \<longrightarrow>
      filter is_history_query (fst (check_usage cfg e d)) =
        [Get_history usage_sensor (start_time_of e d)]) \<and>
   (batch_duration data = Inr m \<longrightarrow>
      filter is_history_query (fst (batch_check_usage cfg e data)) =
        [Get_history usage_sensor (now_local e - (delay_minutes cfg + m) * 60000000)])"
proof (intro conjI impI)
  show "start_time_of e d = finish_time d - duration d * 1000000 - (now_tz e - now_local e)"
    by (rule start_time_of_eq)
next
  assume "now_local e = now_tz e"
  then show "start_time_of e d = finish_time d - duration d * 1000000"
    by (simp add: start_time_of_eq)
next
  assume "last_reported e = Some r \<and> finish_time d \<le> r \<and>
    r - finish_time d \<le> timedelta_minutes 30"
  then show "filter is_history_query (fst (check_usage cfg e d)) =
        [Get_history usage_sensor (start_time_of e d)]"
    using check_usage_history_query by blast
next
  assume "batch_duration data = Inr m"
  then show "filter is_history_query (fst (batch_check_usage cfg e data)) =
        [Get_history usage_sensor (now_local e - (delay_minutes cfg + m) * 60000000)]"
    by (rule batch_check_usage_history_query)
qed

theorem history_window_start_witness:
  "now_local (scenario_env 120000000 (Some [[Numeric 100, Numeric 140]]))
     = now_tz (scenario_env 120000000 (Some [[Numeric 100, Numeric 140]])) \<and>
   start_time_of (scenario_env 120000000 (Some [[Numeric 100, Numeric 140]])) (scenario_run 600)
     = - 600000000 \<and>
   last_reported (scenario_env 120000000 (Some [[Numeric 100, Numeric 140]])) = Some 120000000 \<and>
   finish_time (scenario_run 600) \<le> 120000000 \<and>
   120000000 - finish_time (scenario_run 600) \<le> timedelta_minutes 30 \<and>
   filter is_history_query
     (fst (check_usage scenario_config
             (scenario_env 120000000 (Some [[Numeric 100, Numeric 140]])) (scenario_run 600)))
     = [Get_history usage_sensor (- 600000000)] \<and>
   batch_duration (run_event (PInt 200)) = Inr 3 \<and>
   filter is_history_query
     (fst (batch_check_usage scenario_config
             (scenario_env 120000000 (Some [[Numeric 100, Numeric 140]]))
             (run_event (PInt 200))))
     = [Get_history usage_sensor (- 630000000)]"
proof -
  let ?ea = "scenario_env 120000000 (Some [[Numeric 100, Numeric 140]])"
  have h: "now_local ?ea = now_tz ?ea" "last_reported ?ea = Some 120000000"
      "finish_time (scenario_run 600) \<le> 120000000"
      "120000000 - finish_time (scenario_run 600) \<le> timedelta_minutes 30"
    by (simp_all add: scenario_defs timedelta_minutes_def)
  have b: "batch_duration (run_event (PInt 200)) = Inr 3"
    by (simp add: batch_duration_def run_duration_def scenario_defs py_trunc_def floor_eq_iff)
  have v: "finish_time (scenario_run 600) = 0" "duration (scenario_run 600) = 600"
      "now_local ?ea = 150000000" "delay_minutes scenario_config = 10"
    by (simp_all add: scenario_defs)
  note t = history_window_start[where e = ?ea and d = "scenario_run 600" and r = 120000000
             and cfg = scenario_config and data = "run_event (PInt 200)" and m = 3]
  have s: "start_time_of ?ea (scenario_run 600) = - 600000000"
    using t h(1) by (simp add: v)
  have q: "filter is_history_query (fst (check_usage scenario_config ?ea (scenario_run 600)))
             = [Get_history usage_sensor (- 600000000)]"
    using t h s by simp
  have w: "filter is_history_query
             (fst (batch_check_usage scenario_config ?ea (run_event (PInt 200))))
             = [Get_history usage_sensor (- 630000000)]"
    using t b by (simp add: v)
  show ?thesis using h b s q w by simp
qed

end
